theory Spec2Isabelle
  imports Complex_Main "HOL-Library.Sublist" "HOL-Library.AList"
begin

section \<open>Python strings\<close>

text \<open>
  A Python \<open>str\<close> is modelled as a \<open>string\<close>: a list of characters, each character a code
  point below 256.  On that range the functions below are the ones of Python 3:
  \<open>str.isspace\<close>, \<open>str.lower\<close>, \<open>str.strip()\<close>, \<open>str.split()\<close>, \<open>str.join\<close>,
  \<open>str.replace\<close> and the substring test \<open>sub in text\<close>.
\<close>

definition isspace :: "char \<Rightarrow> bool" where
  "isspace c =
     (let n = (of_char c :: nat)
      in (9 \<le> n \<and> n \<le> 13) \<or> (28 \<le> n \<and> n \<le> 32) \<or> n = 133 \<or> n = 160)"

definition lower_char :: "char \<Rightarrow> char" where
  "lower_char c =
     (let n = (of_char c :: nat)
      in if (65 \<le> n \<and> n \<le> 90) \<or> (192 \<le> n \<and> n \<le> 222 \<and> n \<noteq> 215)
         then char_of (n + 32) else c)"

definition lower :: "string \<Rightarrow> string" where
  "lower s = map lower_char s"

definition strip :: "string \<Rightarrow> string" where
  "strip s = rev (dropWhile isspace (rev (dropWhile isspace s)))"

text \<open>\<open>sub in text\<close>: \<open>sub\<close> occurs in \<open>text\<close> as a contiguous run of characters.\<close>

definition str_in :: "string \<Rightarrow> string \<Rightarrow> bool" where
  "str_in sub s = sublist sub s"

text \<open>\<open>any(word in text for word in words)\<close>\<close>

definition any_in :: "string list \<Rightarrow> string \<Rightarrow> bool" where
  "any_in ws s = list_ex (\<lambda>w. str_in w s) ws"

text \<open>
  \<open>text.split()\<close> scans the text once; \<open>cur\<close> is the word being read.  Runs of white space
  separate words and produce no empty word.
\<close>

fun split_acc :: "string \<Rightarrow> string \<Rightarrow> string list" where
  "split_acc cur [] = (if cur = [] then [] else [cur])"
| "split_acc cur (c # cs) =
     (if isspace c
      then (if cur = [] then split_acc [] cs else cur # split_acc [] cs)
      else split_acc (cur @ [c]) cs)"

definition split :: "string \<Rightarrow> string list" where
  "split s = split_acc [] s"

fun join :: "string \<Rightarrow> string list \<Rightarrow> string" where
  "join sep [] = []"
| "join sep [w] = w"
| "join sep (w # v # ws) = w @ sep @ join sep (v # ws)"

text \<open>
  \<open>text.replace(old, new)\<close> for a non-empty \<open>old\<close>: the occurrences are found from the
  left and do not overlap.  \<open>k\<close> counts the characters of a found occurrence that are still
  to be skipped.
\<close>

fun replace_from :: "nat \<Rightarrow> string \<Rightarrow> string \<Rightarrow> string \<Rightarrow> string" where
  "replace_from k old new [] = []"
| "replace_from (Suc k) old new (c # cs) = replace_from k old new cs"
| "replace_from 0 old new (c # cs) =
     (if prefix old (c # cs)
      then new @ replace_from (length old - 1) old new cs
      else c # replace_from 0 old new cs)"

text \<open>With an empty \<open>old\<close>, Python puts \<open>new\<close> before every character and at the end.\<close>

definition replace :: "string \<Rightarrow> string \<Rightarrow> string \<Rightarrow> string" where
  "replace old new s =
     (if old = [] then new @ concat (map (\<lambda>c. c # new) s)
      else replace_from 0 old new s)"

section \<open>Formatting numbers\<close>

text \<open>\<open>str(n)\<close> for a natural number, and for an integer.\<close>

fun str_nat :: "nat \<Rightarrow> string" where
  "str_nat n =
     (if n < 10 then [char_of (48 + n)]
      else str_nat (n div 10) @ [char_of (48 + n mod 10)])"

definition str_int :: "int \<Rightarrow> string" where
  "str_int i = (if i < 0 then CHR ''-'' # str_nat (nat (- i)) else str_nat (nat i))"

text \<open>
  The format \<open>{i:,}\<close> of an integer: a comma before every group of three digits, counted
  from the right.  \<open>commas_rev\<close> works on the digits in reverse order.
\<close>

fun commas_rev :: "string \<Rightarrow> string" where
  "commas_rev (a # b # c # d # ds) = a # b # c # CHR '','' # commas_rev (d # ds)"
| "commas_rev ds = ds"

definition format_commas :: "int \<Rightarrow> string" where
  "format_commas i =
     (let ds = rev (commas_rev (rev (str_nat (nat \<bar>i\<bar>))))
      in if i < 0 then CHR ''-'' # ds else ds)"

text \<open>
  The formats \<open>{x:.0f}\<close> and \<open>{x:.1f}\<close>.  The source computes \<open>x\<close> in binary floating
  point; the model computes it as a rational number and rounds a tie to the even
  neighbour.  On the numbers the two constructors give (\<open>2100000 / 1200000 * 100\<close> and
  \<open>400000 / 1000000 * 100\<close>) both print the same text.
\<close>

definition round_half_even :: "rat \<Rightarrow> int" where
  "round_half_even x =
     (let f = \<lfloor>x\<rfloor>; d = x - of_int f
      in if d < 1 / 2 then f else if 1 / 2 < d then f + 1
         else if even f then f else f + 1)"

definition zero_pad :: "nat \<Rightarrow> string \<Rightarrow> string" where
  "zero_pad n ds = replicate (n - length ds) CHR ''0'' @ ds"

definition format_f :: "nat \<Rightarrow> rat \<Rightarrow> string" where
  "format_f n x =
     (let scaled = nat (round_half_even (\<bar>x\<bar> * 10 ^ n));
          whole = str_nat (scaled div 10 ^ n);
          frac = (if n = 0 then [] else CHR ''.'' # zero_pad n (str_nat (scaled mod 10 ^ n)))
      in (if x < 0 then ''-'' else []) @ whole @ frac)"

section \<open>app/voice2.py: OptimizedVoiceAssistant\<close>

record client_data =
  cd_name :: string
  cd_location :: string
  cd_purchase_year :: int
  cd_bought_price :: int
  cd_current_price :: int

record bot =
  call_sid :: string
  confirm_count :: int
  reject_count :: int
  client :: client_data

definition OptimizedVoiceAssistant :: "string \<Rightarrow> bot" where
  "OptimizedVoiceAssistant sid =
     \<lparr> call_sid = sid, confirm_count = 0, reject_count = 0,
       client = \<lparr> cd_name = ''Client'', cd_location = ''Dubai'', cd_purchase_year = 2018,
                  cd_bought_price = 1000000, cd_current_price = 1400000 \<rparr> \<rparr>"

definition confirm_words :: "string list" where
  "confirm_words = [''yes'', ''okay'', ''interested'', ''sure'', ''agree'']"

definition reject_words :: "string list" where
  "reject_words = [''no'', ''not interested'', ''stop'', ''never'', ''leave me'']"

text \<open>
  \<open>handle_intents\<close> does not read \<open>self\<close>; the intents are Python strings, as in the
  source.
\<close>

definition handle_intents :: "string \<Rightarrow> string" where
  "handle_intents text0 =
     (let text = lower text0
      in if any_in confirm_words text then ''strong_confirm''
         else if any_in reject_words text then ''strong_reject''
         else ''neutral'')"

text \<open>
  The two templates for the decisive intents hold the apostrophe U+2019, which lies outside
  the modelled range of characters; it is written here by its three UTF-8 bytes.  \<open>process\<close>
  calls the generator on a non-decisive intent only, so it never reaches them.
\<close>

definition generate_fast_response :: "bot \<Rightarrow> string \<Rightarrow> string \<Rightarrow> string" where
  "generate_fast_response b user_input intent =
     (if intent = ''neutral''
      then ''Thanks for sharing. Could you tell me more about your preferences in ''
             @ cd_location (client b) @ ''?''
      else if intent = ''strong_confirm''
      then ''Perfect. I'' @ [CHR 0xE2, CHR 0x80, CHR 0x99] @ ''ll prepare the next steps right away.''
      else if intent = ''strong_reject''
      then ''Understood. I'' @ [CHR 0xE2, CHR 0x80, CHR 0x99] @ ''ll close this discussion.''
      else ''I see. Let's continue our conversation.'')"

section \<open>app/property\_rag.py: RealEstateRAG\<close>

text \<open>
  \<open>embeddings\<close> is \<open>None\<close> when \<open>GOOGLE_API_KEY\<close> is not set or the client could not be
  built; only that is read.
\<close>

record RealEstateRAG =
  has_embeddings :: bool

definition query_knowledge_base :: "RealEstateRAG \<Rightarrow> string \<Rightarrow> nat \<Rightarrow> string" where
  "query_knowledge_base rag query k =
     (if \<not> has_embeddings rag
      then ''Based on Dubai market trends, properties have shown steady ROI growth.''
      else ''Real RAG search results would be returned here.'')"

section \<open>app/main.py\<close>

subsection \<open>The TwiML response\<close>

text \<open>
  A response is the list of verbs appended to the \<open>VoiceResponse\<close>, in order.  \<open>Say\<close> holds
  the text and the voice; \<open>Gather\<close> holds its \<open>input\<close>, \<open>action\<close>, \<open>timeout\<close> and
  \<open>speechTimeout\<close> attributes and the verbs nested in it.
\<close>

record gather_attrs =
  g_input :: string
  g_action :: string
  g_timeout :: nat
  g_speech_timeout :: "string option"

datatype verb = Say string string | Gather gather_attrs "verb list" | Hangup

type_synonym response = "verb list"

fun is_gather :: "verb \<Rightarrow> bool" where
  "is_gather (Gather a vs) = True"
| "is_gather v = False"

text \<open>
  The continuation flag of a turn: the response of \<open>/process\<close> asks the caller to speak again
  (it holds a \<open>Gather\<close>) and does not hang up.
\<close>

definition continuation :: "response \<Rightarrow> bool" where
  "continuation r = (list_ex is_gather r \<and> Hangup \<notin> set r)"

subsection \<open>Sessions\<close>

text \<open>
  The bot of a session is a Python object that \<open>process\<close> mutates in place and that stays
  what it is when its session entry is deleted.  The model keeps the objects in a store
  addressed by references (\<open>heap\<close>, with \<open>next_ref\<close> the next free reference); a session
  holds the reference of its bot.  \<open>REDIS_ON\<close> is \<open>REDIS_URL and REDIS_AVAILABLE\<close>;
  \<open>redis\<close> maps a key to its hash, and its commands are taken to succeed.  The expiry of
  a key one hour after \<open>set_session\<close> happens between requests and is no step of the model;
  the log messages are left out.
\<close>

type_synonym timestamp = rat

record session =
  s_bot :: nat
  s_start_time :: timestamp

record app =
  REDIS_ON :: bool
  redis :: "string \<rightharpoonup> (string \<times> timestamp) list"
  sessions :: "string \<rightharpoonup> session"
  heap :: "nat \<Rightarrow> bot"
  next_ref :: nat

definition redis_key :: "string \<Rightarrow> string" where
  "redis_key sid = ''call:'' @ sid"

definition hgetall :: "app \<Rightarrow> string \<Rightarrow> (string \<times> timestamp) list" where
  "hgetall st key = (case redis st key of None \<Rightarrow> [] | Some h \<Rightarrow> h)"

definition get_session :: "app \<Rightarrow> string \<Rightarrow> session option" where
  "get_session st sid =
     (if REDIS_ON st
      then (if hgetall st (redis_key sid) \<noteq> [] then sessions st sid else None)
      else sessions st sid)"

definition set_session :: "app \<Rightarrow> string \<Rightarrow> nat \<Rightarrow> timestamp \<Rightarrow> app" where
  "set_session st sid bot_ref now =
     (let st1 = (if REDIS_ON st
                 then st\<lparr>redis := (redis st)(redis_key sid \<mapsto>
                             AList.update ''created'' now (hgetall st (redis_key sid)))\<rparr>
                 else st)
      in st1\<lparr>sessions := (sessions st1)(sid \<mapsto> \<lparr>s_bot = bot_ref, s_start_time = now\<rparr>)\<rparr>)"

definition clear_session :: "app \<Rightarrow> string \<Rightarrow> app" where
  "clear_session st sid =
     (let st1 = (if REDIS_ON st then st\<lparr>redis := (redis st)(redis_key sid := None)\<rparr> else st)
      in st1\<lparr>sessions := (sessions st1)(sid := None)\<rparr>)"

text \<open>
  The module as it is after import and start-up: no session, no key in Redis.  The store
  holds no object yet: the cells from \<open>next_ref\<close> on are not in use, and what they hold is
  never read.
\<close>

definition startup :: "bool \<Rightarrow> app" where
  "startup redis_on =
     \<lparr> REDIS_ON = redis_on, redis = Map.empty, sessions = Map.empty,
       heap = (\<lambda>r. OptimizedVoiceAssistant []), next_ref = 0 \<rparr>"

text \<open>Creating an object: it is stored at the next free reference.\<close>

definition new_object :: "app \<Rightarrow> bot \<Rightarrow> nat \<times> app" where
  "new_object st b =
     (next_ref st, st\<lparr>heap := (heap st)(next_ref st := b), next_ref := Suc (next_ref st)\<rparr>)"

definition clean_text_for_tts :: "string \<Rightarrow> string" where
  "clean_text_for_tts text0 =
     (let text1 = replace ''AED'' ''Arab Emirates Dirham'' text0;
          text2 = replace ''ROI'' ''return on investment'' text1
      in join '' '' (split text2))"

definition FALLBACK_REPLY :: string where
  "FALLBACK_REPLY =
     ''I'm still pulling up the latest details. Could you share a bit more while I check?''"

subsection \<open>The endpoint /voice\<close>

datatype error = ZeroDivisionError | CollaboratorError

definition process_gather :: gather_attrs where
  "process_gather =
     \<lparr> g_input = ''speech'', g_action = ''/process'', g_timeout = 4,
       g_speech_timeout = Some ''auto'' \<rparr>"

definition greeting :: "bot \<Rightarrow> error + string" where
  "greeting b =
     (let profit = cd_current_price (client b) - cd_bought_price (client b)
      in if cd_bought_price (client b) = 0 then Inl ZeroDivisionError
         else
           (let roi_percentage = (of_int profit / of_int (cd_bought_price (client b))) * 100
            in Inr (''Hi '' @ cd_name (client b) @ '', I'm Alexa from Baaz Landmark Real Estate. ''
                 @ ''Your '' @ cd_location (client b) @ '' property gained '' @ format_commas profit
                 @ '' Arab Emirates Dirhams since '' @ str_int (cd_purchase_year (client b)) @ '' - ''
                 @ ''that's '' @ format_f 1 roi_percentage
                 @ '' percent return on investment. Ready to discuss?'')))"

text \<open>
  The session is stored before the greeting is computed, so the state is returned on the
  error path too.
\<close>

definition voice :: "app \<Rightarrow> string \<Rightarrow> timestamp \<Rightarrow> (error + response) \<times> app" where
  "voice st CallSid now =
     (let (r, st1) = new_object st (OptimizedVoiceAssistant CallSid);
          st2 = set_session st1 CallSid r now
      in case greeting (heap st2 r) of
           Inl e \<Rightarrow> (Inl e, st2)
         | Inr g \<Rightarrow>
             (Inr [Gather process_gather [Say (clean_text_for_tts g) ''alice''],
                   Say ''I didn't catch that. Goodbye!'' ''alice'',
                   Hangup], st2))"

subsection \<open>The endpoint /process\<close>

text \<open>
  The reply generator and the knowledge lookup run in an executor, each awaited under its
  own timeout.  What the await of a future gives is a parameter of the model: the value the
  call returned in time, \<open>asyncio.TimeoutError\<close>, or the exception the call raised.
\<close>

datatype 'a outcome = Completed 'a | TimedOut | Raised

text \<open>
  The two awaits, in the order of the source.  A timeout leaves \<open>None\<close> in the variable; an
  exception of the generator leaves the \<open>try\<close> block before the lookup is awaited.
\<close>

definition await_both ::
  "string outcome \<Rightarrow> string outcome \<Rightarrow> error + (string option \<times> string option)" where
  "await_both main_future rag_future =
     (case main_future of
        Raised \<Rightarrow> Inl CollaboratorError
      | _ \<Rightarrow>
          (let main_response = (case main_future of Completed m \<Rightarrow> Some m | _ \<Rightarrow> None)
           in case rag_future of
                Raised \<Rightarrow> Inl CollaboratorError
              | _ \<Rightarrow>
                  (let rag_context = (case rag_future of Completed r \<Rightarrow> Some r | _ \<Rightarrow> None)
                   in Inr (main_response, rag_context))))"

text \<open>\<open>if x:\<close> on an optional string: neither \<open>None\<close> nor empty.\<close>

definition truthy :: "string option \<Rightarrow> bool" where
  "truthy x = (case x of None \<Rightarrow> False | Some s \<Rightarrow> s \<noteq> [])"

definition combine :: "string option \<Rightarrow> string option \<Rightarrow> string" where
  "combine main_response rag_context =
     (if truthy main_response
      then (if truthy rag_context \<and> length (the rag_context) > 0
            then the main_response @ '' '' @ the rag_context
            else the main_response)
      else FALLBACK_REPLY)"

definition truncate_reply :: "string \<Rightarrow> string" where
  "truncate_reply reply = (if length reply > 300 then take 297 reply @ ''.'' else reply)"

text \<open>\<open>(SpeechResult or "").strip().lower()\<close>\<close>

definition user_input_of :: "string option \<Rightarrow> string" where
  "user_input_of SpeechResult = lower (strip (case SpeechResult of None \<Rightarrow> [] | Some s \<Rightarrow> s))"

definition process ::
  "app \<Rightarrow> string \<Rightarrow> string option \<Rightarrow> string outcome \<Rightarrow> string outcome \<Rightarrow> response \<times> app" where
  "process st CallSid SpeechResult main_future rag_future =
     (case get_session st CallSid of
        None \<Rightarrow>
          ([Say ''Session expired. Please call again or request a callback.'' ''alice'', Hangup],
           st)
      | Some sess \<Rightarrow>
          (let user_input = user_input_of SpeechResult
           in if user_input = []
              then ([Say ''Could you repeat that?'' ''alice'',
                     Gather process_gather [Say ''Please say that again.'' ''alice'']], st)
              else
                (let b = heap st (s_bot sess); intent = handle_intents user_input
                 in if intent = ''strong_confirm''
                    then
                      (let st1 = st\<lparr>heap := (heap st)
                                    (s_bot sess := b\<lparr>confirm_count := confirm_count b + 2\<rparr>)\<rparr>;
                           reply = ''Perfect! I'll prepare detailed ROI projections and our senior advisor will contact you within 24 hours. Goodbye!''
                       in ([Say (clean_text_for_tts reply) ''alice'', Hangup],
                           clear_session st1 CallSid))
                    else if intent = ''strong_reject''
                    then
                      (let st1 = st\<lparr>heap := (heap st)
                                    (s_bot sess := b\<lparr>reject_count := reject_count b + 2\<rparr>)\<rparr>;
                           reply = ''I understand. If anything changes, contact Baaz Landmark. Have a nice day!''
                       in ([Say (clean_text_for_tts reply) ''alice'', Hangup],
                           clear_session st1 CallSid))
                    else
                      (case await_both main_future rag_future of
                         Inl e \<Rightarrow>
                           ([Say ''Technical issue. Connecting you to an agent.'' ''alice'', Hangup],
                            clear_session st CallSid)
                       | Inr (main_response, rag_context) \<Rightarrow>
                           (let reply = truncate_reply (combine main_response rag_context)
                            in ([Say (clean_text_for_tts reply) ''alice'',
                                 Gather process_gather [Say ''What are your thoughts?'' ''alice'']],
                                st))))))"

section \<open>app/twilio\_webhook.py\<close>

subsection \<open>ReliableVoiceAssistant\<close>

record villa_data =
  vd_name :: string
  vd_location :: string
  vd_bedrooms :: int
  vd_bought_price :: int
  vd_current_price :: int
  vd_purchase_year :: int

record assistant =
  call_id :: "string option"
  client_data :: villa_data
  exchange_count :: int
  confirmed :: bool
  rejected :: bool

definition ReliableVoiceAssistant :: "string option \<Rightarrow> assistant" where
  "ReliableVoiceAssistant cid =
     \<lparr> call_id = cid,
       client_data = \<lparr> vd_name = ''John Smith'', vd_location = ''Downtown Dubai'',
                       vd_bedrooms = 2, vd_bought_price = 1200000,
                       vd_current_price = 3300000, vd_purchase_year = 2020 \<rparr>,
       exchange_count = 0, confirmed = False, rejected = False \<rparr>"

text \<open>
  \<open>profit\<close> and \<open>roi\<close> are computed at the head of the method, so a bought price of zero
  raises \<open>ZeroDivisionError\<close> whatever the input is.  The index \<open>exchange_count % n\<close> is
  never negative in Python, as \<open>mod\<close> on \<open>int\<close> here.
\<close>

definition positive_responses :: "assistant \<Rightarrow> rat \<Rightarrow> string list" where
  "positive_responses b roi =
     [''Excellent! Your property gained ''
        @ format_commas (vd_current_price (client_data b) - vd_bought_price (client_data b))
        @ '' dirhams since '' @ str_int (vd_purchase_year (client_data b))
        @ ''. That's '' @ format_f 0 roi
        @ '' percent return. The timing is perfect to maximize this further.'',
      ''Great! With Dubai's market momentum, smart investors are repositioning now. Would you like to hear about strategic options that could double your returns?'',
      ''Perfect timing! Your villa's performance shows you make smart investment decisions. Let me share how successful investors are leveraging this market cycle.'']"

definition negative_responses :: "string list" where
  "negative_responses =
     [''I understand you're busy. Just consider - your property doubled in value. What if it could double again through smart repositioning? Just 2 minutes of your time?'',
      ''No problem. But before I go - would you rather lock in your 2.1 million dirham profit now, or risk waiting through the summer slowdown? Quick question for you.'',
      ''I respect that. Market timing is personal. If your situation changes, our senior advisors are always available. Have a great day!'']"

definition get_quick_response :: "assistant \<Rightarrow> string \<Rightarrow> error + string" where
  "get_quick_response b user_input =
     (let profit = vd_current_price (client_data b) - vd_bought_price (client_data b)
      in if vd_bought_price (client_data b) = 0 then Inl ZeroDivisionError
         else
           (let roi = (of_int profit / of_int (vd_bought_price (client_data b))) * 100
            in if any_in [''yes'', ''interested'', ''tell me'', ''go ahead'', ''sure'', ''okay'']
                    user_input
               then Inr (positive_responses b roi ! nat (exchange_count b mod 3))
               else if any_in [''no'', ''not interested'', ''busy'', ''later'', ''don't want'']
                         user_input
               then (if exchange_count b \<ge> 2 then Inr (negative_responses ! 2)
                     else Inr (negative_responses ! nat (exchange_count b mod 2)))
               else if any_in [''how'', ''what'', ''where'', ''when'', ''why''] user_input
               then Inr ''Great question! The strategy is simple - sell your villa at peak value, then acquire 2-3 apartments in high-growth areas. This multiplies your rental income and capital appreciation. Interested in the specifics?''
               else Inr (''Based on your excellent '' @ format_f 0 roi
                      @ '' percent return, you're clearly a smart investor. The question is - are you ready to potentially double these returns through strategic repositioning?'')))"

text \<open>\<open>text.split(c)\<close> for a separator of one character: empty pieces are kept.\<close>

fun split_char :: "char \<Rightarrow> string \<Rightarrow> string list" where
  "split_char c [] = [[]]"
| "split_char c (x # xs) =
     (if x = c then [] # split_char c xs
      else (x # hd (split_char c xs)) # tl (split_char c xs))"

definition prompt :: "assistant \<Rightarrow> rat \<Rightarrow> string \<Rightarrow> string" where
  "prompt b roi user_input =
     ''You are Alexa from Baaz Landmark Real Estate Dubai.'' @ [CHR 0x0A, CHR 0x0A]
     @ ''Client: '' @ vd_name (client_data b) @ '' owns '' @ str_int (vd_bedrooms (client_data b))
     @ ''-bed villa in '' @ vd_location (client_data b) @ ''.'' @ [CHR 0x0A]
     @ ''Investment: Bought '' @ str_int (vd_purchase_year (client_data b)) @ '' for ''
     @ format_commas (vd_bought_price (client_data b)) @ '' AED, now worth ''
     @ format_commas (vd_current_price (client_data b)) @ '' AED.'' @ [CHR 0x0A]
     @ ''Performance: ''
     @ format_commas (vd_current_price (client_data b) - vd_bought_price (client_data b))
     @ '' AED profit ('' @ format_f 0 roi @ ''% return)'' @ [CHR 0x0A, CHR 0x0A]
     @ ''User said: '' @ [CHR 0x22] @ user_input @ [CHR 0x22, CHR 0x0A, CHR 0x0A]
     @ ''Respond as a phone conversation:'' @ [CHR 0x0A]
     @ ''- 1-2 sentences maximum'' @ [CHR 0x0A]
     @ ''- Natural, conversational tone'' @ [CHR 0x0A]
     @ ''- Focus on investment opportunity '' @ [CHR 0x0A]
     @ ''- End with engaging question'' @ [CHR 0x0A]
     @ ''- Speak for phone clarity (say '' @ [CHR 0x22] @ ''Arab Emirates Dirham'' @ [CHR 0x22]
     @ '' not '' @ [CHR 0x22] @ ''AED'' @ [CHR 0x22] @ '')'' @ [CHR 0x0A, CHR 0x0A]
     @ ''Response:''"

text \<open>
  \<open>model\<close> is the generative model: given the prompt it returns a text or raises.
  \<open>generate_response\<close> returns its result together with the prompts it sent to the model.
  The quick response is computed outside the \<open>try\<close> block, so its exception leaves the
  method; every exception inside the block leads to the quick response to \<open>default\<close>.
\<close>

definition generate_response ::
  "assistant \<Rightarrow> (string \<Rightarrow> error + string) \<Rightarrow> string \<Rightarrow> (error + string) \<times> string list" where
  "generate_response b model user_input =
     (case get_quick_response b user_input of
        Inl e \<Rightarrow> (Inl e, [])
      | Inr quick_response \<Rightarrow>
          if quick_response \<noteq> [] then (Inr quick_response, [])
          else if vd_bought_price (client_data b) = 0
          then (get_quick_response b ''default'', [])
          else
            (let profit = vd_current_price (client_data b) - vd_bought_price (client_data b);
                 roi = (of_int profit / of_int (vd_bought_price (client_data b))) * 100;
                 p = prompt b roi user_input
             in case model p of
                  Inl e \<Rightarrow> (get_quick_response b ''default'', [p])
                | Inr text \<Rightarrow>
                    (let response = strip text
                     in if length response > 200
                        then (Inr (join ''.'' (take 2 (split_char CHR ''.'' response)) @ ''.''), [p])
                        else (Inr response, [p]))))"

text \<open>The replacements are applied in the order of the dictionary.\<close>

definition replacements :: "(string \<times> string) list" where
  "replacements =
     [(''AED'', ''Arab Emirates Dirham''), (''ROI'', ''return on investment''),
      (''AI'', ''A.I.''), (''3.3M'', ''3.3 million''), (''1.2M'', ''1.2 million''),
      (''2.1M'', ''2.1 million''), (''%'', '' percent''), (''&'', '' and ''),
      (''vs'', ''versus'')]"

definition clean_for_speech :: "string \<Rightarrow> string" where
  "clean_for_speech text = fold (\<lambda>(old, new) t. replace old new t) replacements text"

subsection \<open>Sessions and endpoints\<close>

text \<open>
  \<open>request.form.get("CallSid")\<close> is \<open>None\<close> when the field is missing, and \<open>None\<close> is a key
  like any other.  The assistants live in a store of their own, as the bots of main.py do.
\<close>

record tw_session =
  ts_bot :: nat
  ts_start_time :: timestamp

record flask_app =
  tw_sessions :: "string option \<rightharpoonup> tw_session"
  tw_heap :: "nat \<Rightarrow> assistant"
  tw_next_ref :: nat

definition tw_startup :: flask_app where
  "tw_startup =
     \<lparr> tw_sessions = Map.empty, tw_heap = (\<lambda>r. ReliableVoiceAssistant None), tw_next_ref = 0 \<rparr>"

definition tw_gather :: gather_attrs where
  "tw_gather =
     \<lparr> g_input = ''speech'', g_action = ''/process'', g_timeout = 5, g_speech_timeout = None \<rparr>"

definition tw_greeting :: "assistant \<Rightarrow> error + string" where
  "tw_greeting b =
     (let profit = vd_current_price (client_data b) - vd_bought_price (client_data b)
      in if vd_bought_price (client_data b) = 0 then Inl ZeroDivisionError
         else
           (let roi = (of_int profit / of_int (vd_bought_price (client_data b))) * 100
            in Inr (''Hi '' @ vd_name (client_data b)
                 @ '', this is Alexa from Baaz Landmark Real Estate. ''
                 @ ''Your '' @ vd_location (client_data b) @ '' property gained ''
                 @ format_commas profit @ '' Arab Emirates Dirhams since ''
                 @ str_int (vd_purchase_year (client_data b)) @ ''. ''
                 @ ''That's '' @ format_f 0 roi
                 @ '' percent return on investment! Are you interested in maximizing this further?'')))"

definition tw_voice ::
  "flask_app \<Rightarrow> string option \<Rightarrow> timestamp \<Rightarrow> (error + response) \<times> flask_app" where
  "tw_voice st sid now =
     (let r = tw_next_ref st;
          st1 = st\<lparr>tw_heap := (tw_heap st)(r := ReliableVoiceAssistant sid),
                   tw_next_ref := Suc r,
                   tw_sessions := (tw_sessions st)(sid \<mapsto> \<lparr>ts_bot = r, ts_start_time = now\<rparr>)\<rparr>
      in case tw_greeting (tw_heap st1 r) of
           Inl e \<Rightarrow> (Inl e, st1)
         | Inr g \<Rightarrow>
             (Inr [Gather tw_gather [Say (clean_for_speech g) ''alice''],
                   Say ''I didn't hear a response. Our team will call you back. Goodbye!'' ''alice'',
                   Hangup], st1))"

definition del_session :: "flask_app \<Rightarrow> string option \<Rightarrow> flask_app" where
  "del_session st sid = st\<lparr>tw_sessions := (tw_sessions st)(sid := None)\<rparr>"

definition exit_phrases :: "string list" where
  "exit_phrases = [''not interested'', ''don't call'', ''remove me'', ''stop calling'']"

definition positive_phrases :: "string list" where
  "positive_phrases = [''very interested'', ''let's do it'', ''send information'', ''connect me'']"

definition final_message :: string where
  "final_message = ''I can see you need time to consider this. Our senior advisor will send you detailed information and follow up personally. Thank you for your time!''"

text \<open>
  \<open>tw_process\<close> is \<open>process\<close> of twilio\_webhook.py.  Inside its \<open>try\<close> block only
  \<open>generate_response\<close> can raise; the handler then finds the response still empty.
\<close>

definition tw_process ::
  "flask_app \<Rightarrow> (string \<Rightarrow> error + string) \<Rightarrow> string option \<Rightarrow> string option
     \<Rightarrow> response \<times> flask_app" where
  "tw_process st model sid SpeechResult =
     (case tw_sessions st sid of
        None \<Rightarrow> ([Say ''Session expired. Please call back.'' ''alice'', Hangup], st)
      | Some sess \<Rightarrow>
          (let b = tw_heap st (ts_bot sess);
               user_input = lower (case SpeechResult of None \<Rightarrow> [] | Some s \<Rightarrow> s)
           in if strip user_input = []
              then
                (if exchange_count b = 0
                 then ([Gather tw_gather
                          [Say ''I didn't catch that. Are you interested in hearing about maximizing your property returns?'' ''alice'']],
                       st)
                 else ([Say ''I'm having trouble hearing you. Our senior advisor will call you back within 24 hours. Thank you!'' ''alice'',
                        Hangup],
                       del_session st sid))
              else
                (let b1 = b\<lparr>exchange_count := exchange_count b + 1\<rparr>;
                     st1 = st\<lparr>tw_heap := (tw_heap st)(ts_bot sess := b1)\<rparr>
                 in if any_in exit_phrases user_input
                    then ([Say ''I understand. You'll be removed from our calling list. Have a great day!'' ''alice'',
                           Hangup],
                          del_session st1 sid)
                    else if any_in positive_phrases user_input
                    then ([Say ''Excellent! I'll send you detailed investment projections via WhatsApp and have our senior advisor contact you within 24 hours with specific opportunities. Thank you!'' ''alice'',
                           Hangup],
                          del_session st1 sid)
                    else
                      (case fst (generate_response b1 model user_input) of
                         Inl e \<Rightarrow>
                           ([Say ''I'm experiencing a technical issue. Our senior advisor will call you back shortly. Thank you!'' ''alice'',
                             Hangup],
                            del_session st1 sid)
                       | Inr reply \<Rightarrow>
                           (let clean_reply = clean_for_speech reply
                            in if exchange_count b1 \<ge> 4
                               then ([Say (clean_for_speech final_message) ''alice'', Hangup],
                                     del_session st1 sid)
                               else ([Say clean_reply ''alice'',
                                      Gather tw_gather [Say ''What do you think?'' ''alice'']],
                                     st1))))))"

section \<open>Vocabulary of the properties\<close>

text \<open>The state after one call \<open>CA123\<close> was answered by \<open>/voice\<close>, with in-memory sessions.\<close>

definition one_call :: app where
  "one_call = snd (voice (startup False) ''CA123'' 0)"

text \<open>A decisive intent ends the conversation; every other intent is non-decisive.\<close>

definition nondecisive :: "string \<Rightarrow> bool" where
  "nondecisive intent = (intent \<noteq> ''strong_confirm'' \<and> intent \<noteq> ''strong_reject'')"

text \<open>The response of a turn that goes on: the reply is spoken, then the caller is heard.\<close>

definition continue_response :: "string \<Rightarrow> response" where
  "continue_response reply =
     [Say (clean_text_for_tts reply) ''alice'',
      Gather process_gather [Say ''What are your thoughts?'' ''alice'']]"

text \<open>The response of \<open>process\<close> to a call identifier that has no session.\<close>

definition session_expired :: response where
  "session_expired =
     [Say ''Session expired. Please call again or request a callback.'' ''alice'', Hangup]"

text \<open>The closing lines of the decisive intents, as they are spoken.\<close>

definition closing_confirm :: string where
  "closing_confirm = ''Perfect! I'll prepare detailed return on investment projections and our senior advisor will contact you within 24 hours. Goodbye!''"

definition closing_reject :: string where
  "closing_reject = ''I understand. If anything changes, contact Baaz Landmark. Have a nice day!''"

text \<open>The state of the Flask application after one call \<open>CA123\<close> was answered by \<open>/voice\<close>.\<close>

definition tw_one_call :: flask_app where
  "tw_one_call = snd (tw_voice tw_startup (Some ''CA123'') 0)"

text \<open>The recognised speech of a request, empty when the field is missing.\<close>

definition speech_of :: "string option \<Rightarrow> string" where
  "speech_of SpeechResult = (case SpeechResult of None \<Rightarrow> [] | Some s \<Rightarrow> s)"

text \<open>The state in which the exchange counter of the session's assistant has been increased by one.\<close>

definition bumped :: "flask_app \<Rightarrow> tw_session \<Rightarrow> flask_app" where
  "bumped st sess =
     st\<lparr>tw_heap := (tw_heap st)(ts_bot sess :=
          (tw_heap st (ts_bot sess))\<lparr>exchange_count := exchange_count (tw_heap st (ts_bot sess)) + 1\<rparr>)\<rparr>"

text \<open>The technical-issue responses of the two \<open>except\<close> handlers.\<close>

definition tw_technical_issue :: response where
  "tw_technical_issue =
     [Say ''I'm experiencing a technical issue. Our senior advisor will call you back shortly. Thank you!'' ''alice'',
      Hangup]"


text \<open>A generative model that is out of reach: every call raises.\<close>

definition failing_model :: "string \<Rightarrow> error + string" where
  "failing_model p = Inl CollaboratorError"

text \<open>One more turn \<open>Hello\<close> of the call \<open>CA123\<close> in twilio\_webhook.py, and the state after three.\<close>

definition hello_turn :: "flask_app \<Rightarrow> flask_app" where
  "hello_turn st = snd (tw_process st failing_model (Some ''CA123'') (Some ''Hello''))"

definition tw_three_turns :: flask_app where
  "tw_three_turns = hello_turn (hello_turn (hello_turn tw_one_call))"

text \<open>One more non-decisive turn of the call \<open>CA123\<close> in main.py.\<close>

definition neutral_turn :: "app \<Rightarrow> app" where
  "neutral_turn st =
     snd (process st ''CA123'' (Some ''Tell me about ROI'') (Completed ''Prices rose.'') TimedOut)"


section \<open>Properties\<close>

subsection \<open>The intent classifier\<close>




lemma reject_words_lower: "w \<in> set reject_words \<Longrightarrow> lower w = w"
  by (auto simp: reject_words_def lower_def lower_char_def)

lemma handle_intents_Nil: "handle_intents [] = ''neutral''"
  by (simp add: handle_intents_def lower_def any_in_def confirm_words_def reject_words_def str_in_def)



subsection \<open>The turn of main.py\<close>

lemma voice_state:
  "snd (voice st sid now) =
     set_session (snd (new_object st (OptimizedVoiceAssistant sid))) sid (next_ref st) now"
  by (simp add: voice_def new_object_def Let_def split: sum.splits)

lemma get_session_one_call: "get_session one_call ''CA123'' = Some \<lparr>s_bot = 0, s_start_time = 0\<rparr>"
  by (simp add: one_call_def voice_state new_object_def set_session_def get_session_def startup_def)

lemma process_nondecisive:
  assumes "get_session st sid = Some sess"
    and "user_input_of sp \<noteq> []"
    and "nondecisive (handle_intents (user_input_of sp))"
  shows "process st sid sp m r =
     (case await_both m r of
        Inl e \<Rightarrow> ([Say ''Technical issue. Connecting you to an agent.'' ''alice'', Hangup],
                  clear_session st sid)
      | Inr (a, b) \<Rightarrow> (continue_response (truncate_reply (combine a b)), st))"
proof -
  from assms(3) have n: "handle_intents (user_input_of sp) \<noteq> ''strong_confirm''"
    "handle_intents (user_input_of sp) \<noteq> ''strong_reject''"
    unfolding nondecisive_def by blast+
  show ?thesis
    unfolding process_def continue_response_def Let_def
    by (simp only: assms(1) assms(2) n option.case if_False)
qed

lemma clean_fallback: "clean_text_for_tts FALLBACK_REPLY = FALLBACK_REPLY"
  by code_simp

lemma truncate_fallback: "truncate_reply FALLBACK_REPLY = FALLBACK_REPLY"
  by code_simp

lemma combine_None: "combine None x = FALLBACK_REPLY"
  by (simp add: combine_def truthy_def)

lemma tell_me_input: "user_input_of (Some ''Tell me about ROI'') = ''tell me about roi''"
  by code_simp

lemma tell_me_intent: "handle_intents ''tell me about roi'' = ''neutral''"
  by code_simp

text \<open>
  C1.  On a turn with a non-decisive intent, when the reply generator does not complete
  within its timeout, \<open>process\<close> speaks \<open>FALLBACK_REPLY\<close> and goes on listening, whether the
  knowledge lookup returned a result in time or timed out; the session is kept as it is.
\<close>

theorem process_generator_timeout:
  assumes "get_session st sid = Some sess"
    and "user_input_of sp \<noteq> []"
    and "nondecisive (handle_intents (user_input_of sp))"
    and "rag = TimedOut \<or> (\<exists>r. rag = Completed r)"
  shows "process st sid sp TimedOut rag =
     ([Say FALLBACK_REPLY ''alice'',
       Gather process_gather [Say ''What are your thoughts?'' ''alice'']], st)"
proof -
  from assms(4)
  have "await_both TimedOut rag = Inr (None, case rag of Completed r \<Rightarrow> Some r | _ \<Rightarrow> None)"
    by (auto simp: await_both_def)
  then show ?thesis
    using process_nondecisive [OF assms(1-3), of TimedOut rag]
    by (simp add: continue_response_def combine_None truncate_fallback clean_fallback)
qed

theorem process_generator_timeout_witness:
  "process one_call ''CA123'' (Some ''Tell me about ROI'') TimedOut
      (Completed (query_knowledge_base \<lparr>has_embeddings = False\<rparr> ''tell me about roi'' 1)) =
     ([Say FALLBACK_REPLY ''alice'',
       Gather process_gather [Say ''What are your thoughts?'' ''alice'']], one_call)"
  by (rule process_generator_timeout [OF get_session_one_call])
     (simp_all add: tell_me_input tell_me_intent nondecisive_def)

lemma await_completed:
  "await_both (Completed m) (Completed r) = Inr (Some m, Some r)"
  "await_both (Completed m) TimedOut = Inr (Some m, None)"
  by (simp_all add: await_both_def)

lemma combine_Some:
  "m \<noteq> [] \<Longrightarrow> r \<noteq> [] \<Longrightarrow> combine (Some m) (Some r) = m @ '' '' @ r"
  "m \<noteq> [] \<Longrightarrow> combine (Some m) (Some []) = m"
  "m \<noteq> [] \<Longrightarrow> combine (Some m) None = m"
  "combine (Some []) x = FALLBACK_REPLY"
  by (simp_all add: combine_def truthy_def)

text \<open>
  C3, as stated, fails where the generator completes in time with an empty text: the
  guard \<open>if main_response:\<close> takes the empty text for no text, and the reply is
  \<open>FALLBACK_REPLY\<close>, not the generator's output.
\<close>

theorem process_empty_generator_counterexample:
  "process one_call ''CA123'' (Some ''Tell me about ROI'') (Completed '''') TimedOut =
     ([Say FALLBACK_REPLY ''alice'',
       Gather process_gather [Say ''What are your thoughts?'' ''alice'']], one_call)
   \<and> FALLBACK_REPLY \<noteq> ''''"
proof -
  have "nondecisive (handle_intents (user_input_of (Some ''Tell me about ROI'')))"
    by (simp add: tell_me_input tell_me_intent nondecisive_def)
  then have "process one_call ''CA123'' (Some ''Tell me about ROI'') (Completed '''') TimedOut =
      (continue_response (truncate_reply (combine (Some '''') None)), one_call)"
    using process_nondecisive [OF get_session_one_call, of "Some ''Tell me about ROI''"]
    by (simp add: tell_me_input await_completed)
  moreover have "FALLBACK_REPLY \<noteq> ''''"
    by (simp add: FALLBACK_REPLY_def)
  ultimately show ?thesis
    by (simp add: combine_Some continue_response_def truncate_fallback clean_fallback)
qed

text \<open>
  C3, amended.  On a turn with a non-decisive intent, when the reply generator completes
  within its timeout with a non-empty text: if the lookup completes with a non-empty text,
  the reply is the generator's text, one space and the lookup's text; if the lookup gives
  an empty text or times out, the reply is the generator's text alone.  The reply is then
  cut by \<open>truncate_reply\<close> and spoken through \<open>clean_text_for_tts\<close>.
\<close>

theorem process_generator_completed:
  assumes "get_session st sid = Some sess"
    and "user_input_of sp \<noteq> []"
    and "nondecisive (handle_intents (user_input_of sp))"
    and "m \<noteq> []"
  shows "(r \<noteq> [] \<longrightarrow> process st sid sp (Completed m) (Completed r) =
            (continue_response (truncate_reply (m @ '' '' @ r)), st))
       \<and> process st sid sp (Completed m) (Completed []) = (continue_response (truncate_reply m), st)
       \<and> process st sid sp (Completed m) TimedOut = (continue_response (truncate_reply m), st)"
  using assms(4)
  by (simp add: process_nondecisive [OF assms(1-3)] await_completed combine_Some)

lemma short_truncate: "length s \<le> 300 \<Longrightarrow> truncate_reply s = s"
  by (simp add: truncate_reply_def)

theorem process_generator_completed_witness:
  "process one_call ''CA123'' (Some ''Tell me about ROI'')
      (Completed ''Prices rose.'') (Completed ''Demand is high.'') =
     ([Say ''Prices rose. Demand is high.'' ''alice'',
       Gather process_gather [Say ''What are your thoughts?'' ''alice'']], one_call)
   \<and> process one_call ''CA123'' (Some ''Tell me about ROI'') (Completed ''Prices rose.'') TimedOut =
     ([Say ''Prices rose.'' ''alice'',
       Gather process_gather [Say ''What are your thoughts?'' ''alice'']], one_call)"
proof -
  have n: "nondecisive (handle_intents (user_input_of (Some ''Tell me about ROI'')))"
    by (simp add: tell_me_input tell_me_intent nondecisive_def)
  have i: "user_input_of (Some ''Tell me about ROI'') \<noteq> []"
    by (simp add: tell_me_input)
  have m: "''Prices rose.'' \<noteq> []" by simp
  have c1: "clean_text_for_tts ''Prices rose. Demand is high.'' = ''Prices rose. Demand is high.''"
    by code_simp
  have c2: "clean_text_for_tts ''Prices rose.'' = ''Prices rose.''"
    by code_simp
  from process_generator_completed [OF get_session_one_call i n m, of "''Demand is high.''"]
  show ?thesis
    by (simp add: continue_response_def short_truncate c1 c2)
qed

subsection \<open>Truncation and cleaning of the reply\<close>

lemma prefix_snoc_notin: "c \<notin> set old \<Longrightarrow> prefix old (s @ [c]) \<longleftrightarrow> prefix old s"
  by (metis in_set_conv_decomp prefix_snoc prefix_order.eq_iff prefix_order.order_trans prefixI)

lemma replace_from_snoc:
  "old \<noteq> [] \<Longrightarrow> c \<notin> set old \<Longrightarrow> k \<le> length s \<Longrightarrow>
     replace_from k old new (s @ [c]) = replace_from k old new s @ [c]"
proof (induction s arbitrary: k)
  case Nil
  then have "\<not> prefix old [c]"
    by (cases old) auto
  with Nil show ?case by simp
next
  case (Cons x xs)
  show ?case
  proof (cases k)
    case 0
    have p: "prefix old (x # xs @ [c]) \<longleftrightarrow> prefix old (x # xs)"
      using prefix_snoc_notin [OF Cons.prems(2), of "x # xs"] by simp
    show ?thesis
    proof (cases "prefix old (x # xs)")
      case True
      then have "length old \<le> Suc (length xs)"
        using prefix_length_le by fastforce
      then have "length old - 1 \<le> length xs" by simp
      with Cons.IH [OF Cons.prems(1,2)] True p 0 show ?thesis by simp
    next
      case False
      with Cons.IH [OF Cons.prems(1,2), of 0] p 0 show ?thesis by simp
    qed
  next
    case (Suc j)
    with Cons show ?thesis by simp
  qed
qed

lemma replace_snoc:
  "old \<noteq> [] \<Longrightarrow> c \<notin> set old \<Longrightarrow> replace old new (s @ [c]) = replace old new s @ [c]"
  by (simp add: replace_def replace_from_snoc)

lemma split_acc_snoc:
  "\<not> isspace c \<Longrightarrow>
     split_acc cur (s @ [c]) \<noteq> [] \<and> last (split_acc cur (s @ [c])) \<noteq> []
     \<and> last (last (split_acc cur (s @ [c]))) = c"
  by (induction s arbitrary: cur) auto

lemma last_join:
  "ws \<noteq> [] \<Longrightarrow> last ws \<noteq> [] \<Longrightarrow> join sep ws \<noteq> [] \<and> last (join sep ws) = last (last ws)"
  by (induction sep ws rule: join.induct) auto

lemma clean_text_for_tts_period:
  "clean_text_for_tts (s @ ''.'') \<noteq> [] \<and> last (clean_text_for_tts (s @ ''.'')) = CHR ''.''"
proof -
  have sp: "\<not> isspace CHR ''.''" by (simp add: isspace_def)
  have "replace ''ROI'' ''return on investment'' (replace ''AED'' ''Arab Emirates Dirham'' (s @ ''.''))
        = replace ''ROI'' ''return on investment'' (replace ''AED'' ''Arab Emirates Dirham'' s) @ ''.''"
    by (simp add: replace_snoc)
  then show ?thesis
    using split_acc_snoc [OF sp] last_join
    by (simp add: clean_text_for_tts_def split_def)
qed
lemma tell_me_nondecisive:
  "user_input_of (Some ''Tell me about ROI'') \<noteq> []"
  "nondecisive (handle_intents (user_input_of (Some ''Tell me about ROI'')))"
  by (simp_all add: tell_me_input tell_me_intent nondecisive_def)

lemma clean_16_AED:
  "clean_text_for_tts (concat (replicate 16 ''AED '')) =
     ''Arab Emirates Dirham Arab Emirates Dirham Arab Emirates Dirham Arab Emirates Dirham Arab Emirates Dirham Arab Emirates Dirham Arab Emirates Dirham Arab Emirates Dirham Arab Emirates Dirham Arab Emirates Dirham Arab Emirates Dirham Arab Emirates Dirham Arab Emirates Dirham Arab Emirates Dirham Arab Emirates Dirham Arab Emirates Dirham''"
  by code_simp

text \<open>
  C4, as stated, fails for the spoken text: the limit of 300 characters is applied to the
  reply before \<open>clean_text_for_tts\<close> writes \<open>AED\<close> and \<open>ROI\<close> out in words.  A reply of
  64 characters is spoken as 335 characters.
\<close>

theorem spoken_reply_over_limit_counterexample:
  "length (concat (replicate 16 ''AED '')) = 64
   \<and> process one_call ''CA123'' (Some ''Tell me about ROI'')
          (Completed (concat (replicate 16 ''AED ''))) TimedOut =
        ([Say (clean_text_for_tts (concat (replicate 16 ''AED ''))) ''alice'',
          Gather process_gather [Say ''What are your thoughts?'' ''alice'']], one_call)
   \<and> length (clean_text_for_tts (concat (replicate 16 ''AED ''))) = 335"
proof -
  have l: "length (concat (replicate 16 ''AED '')) = 64" by code_simp
  have ne: "concat (replicate 16 ''AED '') \<noteq> []" using l by auto
  have "process one_call ''CA123'' (Some ''Tell me about ROI'')
          (Completed (concat (replicate 16 ''AED ''))) TimedOut =
        (continue_response (concat (replicate 16 ''AED '')), one_call)"
    using process_nondecisive [OF get_session_one_call tell_me_nondecisive] ne l
    by (simp add: await_completed combine_Some short_truncate)
  moreover have "length (clean_text_for_tts (concat (replicate 16 ''AED ''))) = 335"
    by (simp only: clean_16_AED) simp
  ultimately show ?thesis
    using l by (simp add: continue_response_def)
qed

text \<open>
  C4, amended.  On a turn that goes on, the reply handed to \<open>clean_text_for_tts\<close> never
  exceeds 300 characters, and whenever the combined text exceeds 300 characters that reply
  is the combined text cut to 297 characters with a period appended; the spoken text, which
  is \<open>clean_text_for_tts\<close> of that reply, then still ends with the period.
\<close>

theorem process_reply_truncated:
  assumes "get_session st sid = Some sess"
    and "user_input_of sp \<noteq> []"
    and "nondecisive (handle_intents (user_input_of sp))"
    and "await_both m r = Inr (a, b)"
  shows "process st sid sp m r = (continue_response (truncate_reply (combine a b)), st)
       \<and> length (truncate_reply (combine a b)) \<le> 300
       \<and> (300 < length (combine a b) \<longrightarrow>
            truncate_reply (combine a b) = take 297 (combine a b) @ ''.''
            \<and> clean_text_for_tts (truncate_reply (combine a b)) \<noteq> []
            \<and> last (clean_text_for_tts (truncate_reply (combine a b))) = CHR ''.'')"
proof -
  have "process st sid sp m r = (continue_response (truncate_reply (combine a b)), st)"
    by (simp add: process_nondecisive [OF assms(1-3)] assms(4))
  moreover have "length (truncate_reply (combine a b)) \<le> 300"
    by (simp add: truncate_reply_def)
  moreover have "truncate_reply (combine a b) = take 297 (combine a b) @ ''.''"
    if "300 < length (combine a b)"
    using that by (simp add: truncate_reply_def)
  ultimately show ?thesis
    using clean_text_for_tts_period [of "take 297 (combine a b)"] by auto
qed

lemma long_reply:
  "length (replicate 301 CHR ''a'') = 301"
  "take 297 (replicate 301 CHR ''a'') = replicate 297 CHR ''a''"
  by simp_all

theorem process_reply_truncated_witness:
  "process one_call ''CA123'' (Some ''Tell me about ROI'') (Completed (replicate 301 CHR ''a'')) TimedOut =
     (continue_response (replicate 297 CHR ''a'' @ ''.''), one_call)
   \<and> length (replicate 297 CHR ''a'' @ ''.'') = 298
   \<and> last (clean_text_for_tts (replicate 297 CHR ''a'' @ ''.'')) = CHR ''.''"
proof -
  have a: "await_both (Completed (replicate 301 CHR ''a'')) TimedOut =
             Inr (Some (replicate 301 CHR ''a''), None)"
    by (simp add: await_completed)
  have c: "combine (Some (replicate 301 CHR ''a'')) None = replicate 301 CHR ''a''"
    by (simp add: combine_Some)
  have t: "truncate_reply (replicate 301 CHR ''a'') = replicate 297 CHR ''a'' @ ''.''"
    by (simp add: truncate_reply_def)
  from process_reply_truncated [OF get_session_one_call tell_me_nondecisive a]
  show ?thesis
    by (simp add: c t)
qed

subsection \<open>Decisive turns and sessions\<close>

lemma clean_confirm:
  "clean_text_for_tts ''Perfect! I'll prepare detailed ROI projections and our senior advisor will contact you within 24 hours. Goodbye!'' = closing_confirm"
  unfolding closing_confirm_def by code_simp

lemma clean_reject:
  "clean_text_for_tts ''I understand. If anything changes, contact Baaz Landmark. Have a nice day!'' = closing_reject"
  unfolding closing_reject_def by code_simp

lemma get_session_clear [simp]: "get_session (clear_session st sid) sid = None"
  by (simp add: get_session_def clear_session_def hgetall_def)

lemma heap_clear [simp]: "heap (clear_session st sid) = heap st"
  by (simp add: clear_session_def)

lemma sessions_clear: "sessions (clear_session st sid) = (sessions st)(sid := None)"
  by (simp add: clear_session_def)

lemma process_no_session:
  "get_session st sid = None \<Longrightarrow> process st sid sp m r = (session_expired, st)"
  by (simp add: process_def session_expired_def)

lemma not_continuation_expired: "\<not> continuation session_expired"
  by (simp add: continuation_def session_expired_def)

lemma process_confirm:
  assumes "get_session st sid = Some sess"
    and "handle_intents (user_input_of sp) = ''strong_confirm''"
  shows "process st sid sp m r =
     ([Say closing_confirm ''alice'', Hangup],
      clear_session (st\<lparr>heap := (heap st)(s_bot sess :=
         (heap st (s_bot sess))\<lparr>confirm_count := confirm_count (heap st (s_bot sess)) + 2\<rparr>)\<rparr>) sid)"
proof -
  have ne: "user_input_of sp \<noteq> []"
    using assms(2) handle_intents_Nil by auto
  show ?thesis
    unfolding process_def Let_def
    by (simp only: assms ne option.case if_False if_True clean_confirm simp_thms)
qed

lemma process_reject:
  assumes "get_session st sid = Some sess"
    and "handle_intents (user_input_of sp) = ''strong_reject''"
  shows "process st sid sp m r =
     ([Say closing_reject ''alice'', Hangup],
      clear_session (st\<lparr>heap := (heap st)(s_bot sess :=
         (heap st (s_bot sess))\<lparr>reject_count := reject_count (heap st (s_bot sess)) + 2\<rparr>)\<rparr>) sid)"
proof -
  have ne: "user_input_of sp \<noteq> []"
    using assms(2) handle_intents_Nil by auto
  have nc: "handle_intents (user_input_of sp) \<noteq> ''strong_confirm''"
    using assms(2) by simp
  show ?thesis
    unfolding process_def Let_def
    by (simp only: assms(1) ne nc option.case if_False) (simp add: assms(2) clean_reject)
qed

text \<open>
  C5.  On a turn whose intent is \<open>strong_confirm\<close> (\<open>strong_reject\<close>), \<open>process\<close> adds 2
  to the confirm (reject) counter of the session's bot, speaks the fixed positive (negative)
  closing line and hangs up, so the turn does not continue; it clears the session, and a
  later \<open>/process\<close> request with the same call identifier gets the session-expired response.
\<close>

theorem process_decisive:
  assumes "get_session st sid = Some sess"
  shows "(handle_intents (user_input_of sp) = ''strong_confirm'' \<longrightarrow>
            fst (process st sid sp m r) = [Say closing_confirm ''alice'', Hangup]
          \<and> \<not> continuation (fst (process st sid sp m r))
          \<and> confirm_count (heap (snd (process st sid sp m r)) (s_bot sess)) =
              confirm_count (heap st (s_bot sess)) + 2
          \<and> get_session (snd (process st sid sp m r)) sid = None
          \<and> process (snd (process st sid sp m r)) sid sp' m' r' =
              (session_expired, snd (process st sid sp m r)))
       \<and> (handle_intents (user_input_of sp) = ''strong_reject'' \<longrightarrow>
            fst (process st sid sp m r) = [Say closing_reject ''alice'', Hangup]
          \<and> \<not> continuation (fst (process st sid sp m r))
          \<and> reject_count (heap (snd (process st sid sp m r)) (s_bot sess)) =
              reject_count (heap st (s_bot sess)) + 2
          \<and> get_session (snd (process st sid sp m r)) sid = None
          \<and> process (snd (process st sid sp m r)) sid sp' m' r' =
              (session_expired, snd (process st sid sp m r)))"
proof (intro conjI impI)
  assume c: "handle_intents (user_input_of sp) = ''strong_confirm''"
  note p = process_confirm [OF assms c, of m r]
  show "fst (process st sid sp m r) = [Say closing_confirm ''alice'', Hangup]"
    by (simp add: p)
  show "\<not> continuation (fst (process st sid sp m r))"
    by (simp add: p continuation_def)
  show "confirm_count (heap (snd (process st sid sp m r)) (s_bot sess)) =
          confirm_count (heap st (s_bot sess)) + 2"
    by (simp add: p)
  show "get_session (snd (process st sid sp m r)) sid = None"
    by (simp add: p)
  then show "process (snd (process st sid sp m r)) sid sp' m' r' =
          (session_expired, snd (process st sid sp m r))"
    by (rule process_no_session)
next
  assume c: "handle_intents (user_input_of sp) = ''strong_reject''"
  note p = process_reject [OF assms c, of m r]
  show "fst (process st sid sp m r) = [Say closing_reject ''alice'', Hangup]"
    by (simp add: p)
  show "\<not> continuation (fst (process st sid sp m r))"
    by (simp add: p continuation_def)
  show "reject_count (heap (snd (process st sid sp m r)) (s_bot sess)) =
          reject_count (heap st (s_bot sess)) + 2"
    by (simp add: p)
  show "get_session (snd (process st sid sp m r)) sid = None"
    by (simp add: p)
  then show "process (snd (process st sid sp m r)) sid sp' m' r' =
          (session_expired, snd (process st sid sp m r))"
    by (rule process_no_session)
qed

lemma yes_intent: "handle_intents (user_input_of (Some ''Yes I'm interested'')) = ''strong_confirm''"
  by code_simp

lemma stop_intent: "handle_intents (user_input_of (Some ''Stop calling'')) = ''strong_reject''"
  by code_simp

lemma heap_one_call: "heap one_call 0 = OptimizedVoiceAssistant ''CA123''"
  by (simp add: one_call_def voice_state new_object_def set_session_def startup_def)

theorem process_decisive_witness:
  "fst (process one_call ''CA123'' (Some ''Yes I'm interested'') TimedOut TimedOut) =
      [Say closing_confirm ''alice'', Hangup]
   \<and> confirm_count (heap (snd (process one_call ''CA123'' (Some ''Yes I'm interested'') TimedOut TimedOut)) 0) = 2
   \<and> process (snd (process one_call ''CA123'' (Some ''Yes I'm interested'') TimedOut TimedOut))
        ''CA123'' (Some ''Hello'') TimedOut TimedOut =
      (session_expired, snd (process one_call ''CA123'' (Some ''Yes I'm interested'') TimedOut TimedOut))
   \<and> fst (process one_call ''CA123'' (Some ''Stop calling'') TimedOut TimedOut) =
      [Say closing_reject ''alice'', Hangup]
   \<and> reject_count (heap (snd (process one_call ''CA123'' (Some ''Stop calling'') TimedOut TimedOut)) 0) = 2"
  using process_decisive [OF get_session_one_call, of "Some ''Yes I'm interested''" TimedOut TimedOut "Some ''Hello''" TimedOut TimedOut]
    process_decisive [OF get_session_one_call, of "Some ''Stop calling''" TimedOut TimedOut "Some ''Hello''" TimedOut TimedOut]
  by (simp add: yes_intent stop_intent heap_one_call OptimizedVoiceAssistant_def)

lemma get_session_absent: "sessions st sid = None \<Longrightarrow> get_session st sid = None"
  by (simp add: get_session_def)

text \<open>
  C8.  For a call identifier that has no session entry, as in the state after start-up
  (never created) and in the state after \<open>clear_session\<close> (destroyed), \<open>get_session\<close>
  returns \<open>None\<close>, a value and not an exception, and \<open>process\<close> answers with the
  session-expired closing response, which does not continue, and leaves the state as it is.
\<close>

theorem process_unknown_session:
  "(sessions st sid = None \<longrightarrow>
      get_session st sid = None
    \<and> process st sid sp m r = (session_expired, st)
    \<and> \<not> continuation session_expired)
   \<and> sessions (startup redis_on) sid = None
   \<and> sessions (clear_session st sid) sid = None"
  by (simp add: get_session_absent process_no_session not_continuation_expired
      startup_def sessions_clear)

theorem process_unknown_session_witness:
  "get_session (startup False) ''CA999'' = None
   \<and> process (startup False) ''CA999'' (Some ''hello'') TimedOut TimedOut =
       (session_expired, startup False)
   \<and> get_session (clear_session one_call ''CA123'') ''CA123'' = None
   \<and> process (clear_session one_call ''CA123'') ''CA123'' (Some ''hello'') TimedOut TimedOut =
       (session_expired, clear_session one_call ''CA123'')"
  using process_unknown_session [of "startup False" "''CA999''" "Some ''hello''" TimedOut TimedOut False]
    process_unknown_session [of "clear_session one_call ''CA123''" "''CA123''" "Some ''hello''" TimedOut TimedOut False]
  by (simp add: sessions_clear)

subsection \<open>Empty utterances\<close>

lemma isspace_lower_char: "isspace (lower_char c) = isspace c"
proof -
  have "of_char (char_of (of_char c + 32 :: nat)) = (of_char c + 32 :: nat)"
    if "(of_char c :: nat) \<le> 222"
    using that by (simp add: of_char_of)
  then show ?thesis
    by (auto simp: isspace_def lower_char_def Let_def)
qed

lemma dropWhile_all: "(\<forall>x \<in> set (dropWhile P xs). P x) \<longleftrightarrow> dropWhile P xs = []"
  by (induction xs) auto

lemma strip_empty_iff: "strip s = [] \<longleftrightarrow> (\<forall>c \<in> set s. isspace c)"
  by (simp add: strip_def dropWhile_eq_Nil_conv dropWhile_all)

lemma strip_lower_empty: "strip (lower s) = [] \<longleftrightarrow> strip s = []"
  by (simp add: strip_empty_iff lower_def isspace_lower_char)

lemma process_empty_input:
  assumes "get_session st sid = Some sess"
    and "strip (case sp of None \<Rightarrow> [] | Some s \<Rightarrow> s) = []"
  shows "process st sid sp m r =
     ([Say ''Could you repeat that?'' ''alice'',
       Gather process_gather [Say ''Please say that again.'' ''alice'']], st)"
  using assms by (simp add: process_def user_input_of_def lower_def)

subsection \<open>The quick responses of twilio\_webhook.py\<close>

lemma positive_responses_nonempty: "i < 3 \<Longrightarrow> positive_responses b roi ! i \<noteq> []"
proof -
  assume "i < 3"
  then consider "i = 0" | "i = 1" | "i = 2" by linarith
  then show ?thesis
    by cases (simp_all add: positive_responses_def)
qed

lemma negative_responses_nonempty: "i < 3 \<Longrightarrow> negative_responses ! i \<noteq> []"
proof -
  assume "i < 3"
  then consider "i = 0" | "i = 1" | "i = 2" by linarith
  then show ?thesis
    by cases (simp_all add: negative_responses_def)
qed

lemma get_quick_response_nonempty:
  assumes "vd_bought_price (client_data b) \<noteq> 0"
  shows "\<exists>s. get_quick_response b u = Inr s \<and> s \<noteq> []"
proof -
  have p: "positive_responses b roi ! nat (exchange_count b mod 3) \<noteq> []" for roi
    by (rule positive_responses_nonempty) simp
  have n: "negative_responses ! nat (exchange_count b mod 2) \<noteq> []"
    by (rule negative_responses_nonempty) (simp add: nat_less_iff)
  have n2: "negative_responses ! 2 \<noteq> []"
    by (rule negative_responses_nonempty) simp
  show ?thesis
    unfolding get_quick_response_def Let_def
    using assms p n n2 by simp
qed

text \<open>
  C10.  For an assistant whose bought price is not zero, as the constructor makes it, and
  for every input string, \<open>get_quick_response\<close> returns a non-empty string.  So the guard
  \<open>if quick_response:\<close> of \<open>generate_response\<close> always succeeds: \<open>generate_response\<close>
  returns what \<open>get_quick_response\<close> returns and sends no prompt to the generative model.
\<close>

theorem generate_response_quick:
  assumes "vd_bought_price (client_data b) \<noteq> 0"
  shows "(\<exists>s. get_quick_response b user_input = Inr s \<and> s \<noteq> [])
       \<and> generate_response b model user_input = (get_quick_response b user_input, [])"
proof -
  from get_quick_response_nonempty [OF assms, of user_input]
  obtain s where s: "get_quick_response b user_input = Inr s" "s \<noteq> []" by blast
  then have "generate_response b model user_input = (Inr s, [])"
    by (simp add: generate_response_def)
  with s show ?thesis by simp
qed

theorem generate_response_quick_witness:
  "vd_bought_price (client_data (ReliableVoiceAssistant (Some ''CA123''))) \<noteq> 0
   \<and> get_quick_response (ReliableVoiceAssistant (Some ''CA123'')) ''hello there'' =
       Inr ''Based on your excellent 175 percent return, you're clearly a smart investor. The question is - are you ready to potentially double these returns through strategic repositioning?''
   \<and> generate_response (ReliableVoiceAssistant (Some ''CA123'')) failing_model ''hello there'' =
       (get_quick_response (ReliableVoiceAssistant (Some ''CA123'')) ''hello there'', [])"
proof -
  have h: "vd_bought_price (client_data (ReliableVoiceAssistant (Some ''CA123''))) \<noteq> 0"
    by (simp add: ReliableVoiceAssistant_def)
  have q: "get_quick_response (ReliableVoiceAssistant (Some ''CA123'')) ''hello there'' =
       Inr ''Based on your excellent 175 percent return, you're clearly a smart investor. The question is - are you ready to potentially double these returns through strategic repositioning?''"
    by code_simp
  from generate_response_quick [OF h, of "''hello there''" failing_model] h q
  show ?thesis by simp
qed

subsection \<open>The turn of twilio\_webhook.py\<close>

lemma tw_voice_state:
  "snd (tw_voice st sid now) =
     st\<lparr>tw_heap := (tw_heap st)(tw_next_ref st := ReliableVoiceAssistant sid),
        tw_next_ref := Suc (tw_next_ref st),
        tw_sessions := (tw_sessions st)(sid \<mapsto> \<lparr>ts_bot = tw_next_ref st, ts_start_time = now\<rparr>)\<rparr>"
  by (simp add: tw_voice_def Let_def split: sum.splits)

lemma tw_one_call_session:
  "tw_sessions tw_one_call (Some ''CA123'') = Some \<lparr>ts_bot = 0, ts_start_time = 0\<rparr>"
  by (simp add: tw_one_call_def tw_voice_state tw_startup_def)

lemma tw_one_call_heap: "tw_heap tw_one_call 0 = ReliableVoiceAssistant (Some ''CA123'')"
  by (simp add: tw_one_call_def tw_voice_state tw_startup_def)

lemma tw_process_empty_first:
  assumes "tw_sessions st sid = Some sess"
    and "exchange_count (tw_heap st (ts_bot sess)) = 0"
    and "strip (speech_of sp) = []"
  shows "tw_process st model sid sp =
     ([Gather tw_gather
         [Say ''I didn't catch that. Are you interested in hearing about maximizing your property returns?'' ''alice'']],
      st)"
  using assms
  by (simp add: tw_process_def speech_of_def [symmetric] strip_lower_empty)

lemma tw_process_turn:
  assumes "tw_sessions st sid = Some sess"
    and "strip (speech_of sp) \<noteq> []"
  shows "tw_process st model sid sp =
     (if any_in exit_phrases (lower (speech_of sp))
      then ([Say ''I understand. You'll be removed from our calling list. Have a great day!'' ''alice'',
             Hangup],
            del_session (bumped st sess) sid)
      else if any_in positive_phrases (lower (speech_of sp))
      then ([Say ''Excellent! I'll send you detailed investment projections via WhatsApp and have our senior advisor contact you within 24 hours with specific opportunities. Thank you!'' ''alice'',
             Hangup],
            del_session (bumped st sess) sid)
      else
        (case fst (generate_response (tw_heap (bumped st sess) (ts_bot sess)) model
                     (lower (speech_of sp))) of
           Inl e \<Rightarrow> (tw_technical_issue, del_session (bumped st sess) sid)
         | Inr reply \<Rightarrow>
             if exchange_count (tw_heap (bumped st sess) (ts_bot sess)) \<ge> 4
             then ([Say (clean_for_speech final_message) ''alice'', Hangup],
                   del_session (bumped st sess) sid)
             else ([Say (clean_for_speech reply) ''alice'',
                    Gather tw_gather [Say ''What do you think?'' ''alice'']],
                   bumped st sess)))"
proof -
  have ne: "strip (lower (speech_of sp)) \<noteq> []"
    using assms(2) by (simp add: strip_lower_empty)
  have h: "tw_heap (bumped st sess) (ts_bot sess) =
      (tw_heap st (ts_bot sess))\<lparr>exchange_count := exchange_count (tw_heap st (ts_bot sess)) + 1\<rparr>"
    by (simp add: bumped_def)
  show ?thesis
    unfolding tw_process_def Let_def speech_of_def [symmetric] tw_technical_issue_def
    by (simp only: assms(1) ne option.case if_False h bumped_def [symmetric])
qed

lemma continuation_simps:
  "continuation [Say a v, Gather g vs]"
  "continuation [Gather g vs]"
  "\<not> continuation [Say a v, Hangup]"
  by (simp_all add: continuation_def)

text \<open>
  C9.  An utterance that is empty after trimming makes the turn a re-prompt that goes on
  listening, and the state comes back as it was: the session is still there and its bot is
  untouched, so no counter has changed.  In main.py this holds on every turn; in
  twilio\_webhook.py on the first turn, where the exchange counter is 0.
\<close>

theorem empty_utterance_reprompt:
  assumes "strip (speech_of sp) = []"
  shows "(get_session st sid = Some sess \<longrightarrow>
            process st sid sp m r =
              ([Say ''Could you repeat that?'' ''alice'',
                Gather process_gather [Say ''Please say that again.'' ''alice'']], st)
          \<and> continuation (fst (process st sid sp m r)))
       \<and> (tw_sessions tst tsid = Some tsess \<and> exchange_count (tw_heap tst (ts_bot tsess)) = 0 \<longrightarrow>
            tw_process tst model tsid sp =
              ([Gather tw_gather
                  [Say ''I didn't catch that. Are you interested in hearing about maximizing your property returns?'' ''alice'']],
               tst)
          \<and> continuation (fst (tw_process tst model tsid sp)))"
proof -
  have s: "strip (case sp of None \<Rightarrow> [] | Some s \<Rightarrow> s) = []"
    using assms by (simp add: speech_of_def)
  show ?thesis
    by (simp add: process_empty_input [OF _ s] tw_process_empty_first [OF _ _ assms]
        continuation_simps)
qed

lemma blank_speech: "strip (speech_of (Some ''   '')) = []"
  by code_simp

theorem empty_utterance_reprompt_witness:
  "process one_call ''CA123'' (Some ''   '') TimedOut TimedOut =
     ([Say ''Could you repeat that?'' ''alice'',
       Gather process_gather [Say ''Please say that again.'' ''alice'']], one_call)
   \<and> get_session one_call ''CA123'' = Some \<lparr>s_bot = 0, s_start_time = 0\<rparr>
   \<and> tw_process tw_one_call failing_model (Some ''CA123'') (Some ''   '') =
     ([Gather tw_gather
         [Say ''I didn't catch that. Are you interested in hearing about maximizing your property returns?'' ''alice'']],
      tw_one_call)
   \<and> tw_sessions tw_one_call (Some ''CA123'') = Some \<lparr>ts_bot = 0, ts_start_time = 0\<rparr>"
  using empty_utterance_reprompt [OF blank_speech, of one_call "''CA123''" "\<lparr>s_bot = 0, s_start_time = 0\<rparr>"
      TimedOut TimedOut tw_one_call "Some ''CA123''" "\<lparr>ts_bot = 0, ts_start_time = 0\<rparr>" failing_model]
  by (simp add: get_session_one_call tw_one_call_session tw_one_call_heap ReliableVoiceAssistant_def)

subsection \<open>The exchange counter and the error path\<close>

lemma clean_final_message: "clean_for_speech final_message = final_message"
  by code_simp

lemma heap_del_session [simp]: "tw_heap (del_session st sid) = tw_heap st"
  by (simp add: del_session_def)

lemma sessions_del_session [simp]: "tw_sessions (del_session st sid) sid = None"
  by (simp add: del_session_def)

lemma bumped_count:
  "exchange_count (tw_heap (bumped st sess) (ts_bot sess)) =
     exchange_count (tw_heap st (ts_bot sess)) + 1"
  by (simp add: bumped_def)

lemma tw_process_count:
  assumes "tw_sessions st sid = Some sess"
    and "strip (speech_of sp) \<noteq> []"
  shows "tw_heap (snd (tw_process st model sid sp)) = tw_heap (bumped st sess)"
  by (simp add: tw_process_turn [OF assms] split: sum.splits)

lemma tw_process_generated:
  assumes "tw_sessions st sid = Some sess"
    and "strip (speech_of sp) \<noteq> []"
    and "\<not> any_in exit_phrases (lower (speech_of sp))"
    and "\<not> any_in positive_phrases (lower (speech_of sp))"
    and "fst (generate_response (tw_heap (bumped st sess) (ts_bot sess)) model
               (lower (speech_of sp))) = Inr reply"
  shows "tw_process st model sid sp =
     (if 4 \<le> exchange_count (tw_heap st (ts_bot sess)) + 1
      then ([Say final_message ''alice'', Hangup], del_session (bumped st sess) sid)
      else ([Say (clean_for_speech reply) ''alice'',
             Gather tw_gather [Say ''What do you think?'' ''alice'']], bumped st sess))"
  by (simp add: tw_process_turn [OF assms(1,2)] assms(3-5) bumped_count clean_final_message)


text \<open>
  C6, amended.  In twilio\_webhook.py every turn with a non-empty utterance on an existing
  session adds one to the exchange counter of the session's assistant.  When such a turn
  holds no exit phrase and no strongly positive phrase and a reply was generated, then, once
  the counter has reached 4, the wrap-up line is spoken in place of the generated reply, the
  call is hung up and the session is deleted; below 4 the generated reply is spoken and the
  turn continues.  main.py keeps no exchange counter: a non-decisive turn gives the state
  back unchanged and continues, however many turns came before.
\<close>

theorem exchange_counter_ceiling:
  assumes "tw_sessions st sid = Some sess"
    and "strip (speech_of sp) \<noteq> []"
  shows "exchange_count (tw_heap (snd (tw_process st model sid sp)) (ts_bot sess)) =
           exchange_count (tw_heap st (ts_bot sess)) + 1
       \<and> (\<not> any_in exit_phrases (lower (speech_of sp))
          \<and> \<not> any_in positive_phrases (lower (speech_of sp))
          \<and> fst (generate_response (tw_heap (bumped st sess) (ts_bot sess)) model
                   (lower (speech_of sp))) = Inr reply \<longrightarrow>
          (if 4 \<le> exchange_count (tw_heap st (ts_bot sess)) + 1
           then fst (tw_process st model sid sp) = [Say final_message ''alice'', Hangup]
              \<and> \<not> continuation (fst (tw_process st model sid sp))
              \<and> tw_sessions (snd (tw_process st model sid sp)) sid = None
           else tw_process st model sid sp =
                  ([Say (clean_for_speech reply) ''alice'',
                    Gather tw_gather [Say ''What do you think?'' ''alice'']], bumped st sess)))
       \<and> (get_session mst msid = Some msess \<and> user_input_of msp \<noteq> []
          \<and> nondecisive (handle_intents (user_input_of msp)) \<and> await_both m r = Inr (a, c) \<longrightarrow>
          snd (process mst msid msp m r) = mst \<and> continuation (fst (process mst msid msp m r)))"
proof (intro conjI impI)
  show "exchange_count (tw_heap (snd (tw_process st model sid sp)) (ts_bot sess)) =
           exchange_count (tw_heap st (ts_bot sess)) + 1"
    by (simp add: tw_process_count [OF assms] bumped_count)
next
  assume "\<not> any_in exit_phrases (lower (speech_of sp))
          \<and> \<not> any_in positive_phrases (lower (speech_of sp))
          \<and> fst (generate_response (tw_heap (bumped st sess) (ts_bot sess)) model
                   (lower (speech_of sp))) = Inr reply"
  then have p: "tw_process st model sid sp =
     (if 4 \<le> exchange_count (tw_heap st (ts_bot sess)) + 1
      then ([Say final_message ''alice'', Hangup], del_session (bumped st sess) sid)
      else ([Say (clean_for_speech reply) ''alice'',
             Gather tw_gather [Say ''What do you think?'' ''alice'']], bumped st sess))"
    using tw_process_generated [OF assms] by blast
  show "if 4 \<le> exchange_count (tw_heap st (ts_bot sess)) + 1
           then fst (tw_process st model sid sp) = [Say final_message ''alice'', Hangup]
              \<and> \<not> continuation (fst (tw_process st model sid sp))
              \<and> tw_sessions (snd (tw_process st model sid sp)) sid = None
           else tw_process st model sid sp =
                  ([Say (clean_for_speech reply) ''alice'',
                    Gather tw_gather [Say ''What do you think?'' ''alice'']], bumped st sess)"
    by (simp add: p continuation_simps)
next
  assume h: "get_session mst msid = Some msess \<and> user_input_of msp \<noteq> []
          \<and> nondecisive (handle_intents (user_input_of msp)) \<and> await_both m r = Inr (a, c)"
  then have p: "process mst msid msp m r = (continue_response (truncate_reply (combine a c)), mst)"
    using process_nondecisive [of mst msid msess msp m r] by simp
  show "snd (process mst msid msp m r) = mst" by (simp add: p)
  show "continuation (fst (process mst msid msp m r))"
    by (simp add: p continue_response_def continuation_simps)
qed

lemma generate_response_fst:
  assumes "vd_bought_price (client_data b) \<noteq> 0"
  shows "\<exists>s. fst (generate_response b model u) = Inr s"
proof -
  from get_quick_response_nonempty [OF assms, of u]
  obtain s where "get_quick_response b u = Inr s" "s \<noteq> []" by blast
  then show ?thesis by (simp add: generate_response_def)
qed

lemma hello_speech:
  "strip (speech_of (Some ''Hello'')) \<noteq> []"
  "\<not> any_in exit_phrases (lower (speech_of (Some ''Hello'')))"
  "\<not> any_in positive_phrases (lower (speech_of (Some ''Hello'')))"
  by code_simp+

lemma bumped_sessions [simp]: "tw_sessions (bumped st sess) = tw_sessions st"
  by (simp add: bumped_def)

lemma bumped_client_data [simp]:
  "client_data (tw_heap (bumped st sess) (ts_bot sess)) = client_data (tw_heap st (ts_bot sess))"
  by (simp add: bumped_def)

lemma hello_turn_step:
  assumes "tw_sessions st (Some ''CA123'') = Some sess"
    and "vd_bought_price (client_data (tw_heap st (ts_bot sess))) \<noteq> 0"
    and "exchange_count (tw_heap st (ts_bot sess)) + 1 < 4"
  shows "hello_turn st = bumped st sess"
proof -
  from generate_response_fst [of "tw_heap (bumped st sess) (ts_bot sess)" failing_model
      "lower (speech_of (Some ''Hello''))"] assms(2)
  obtain reply where "fst (generate_response (tw_heap (bumped st sess) (ts_bot sess)) failing_model
      (lower (speech_of (Some ''Hello'')))) = Inr reply"
    by auto
  from tw_process_generated [OF assms(1) hello_speech this] assms(3)
  show ?thesis by (simp add: hello_turn_def)
qed

lemma tw_three_turns_facts:
  "tw_sessions tw_three_turns (Some ''CA123'') = Some \<lparr>ts_bot = 0, ts_start_time = 0\<rparr>"
  "exchange_count (tw_heap tw_three_turns 0) = 3"
  "vd_bought_price (client_data (tw_heap tw_three_turns 0)) \<noteq> 0"
proof -
  let ?s = "\<lparr>ts_bot = 0, ts_start_time = 0\<rparr>"
  have b0: "vd_bought_price (client_data (tw_heap tw_one_call 0)) \<noteq> 0"
    "exchange_count (tw_heap tw_one_call 0) = 0"
    by (simp_all add: tw_one_call_heap ReliableVoiceAssistant_def)
  have t1: "hello_turn tw_one_call = bumped tw_one_call ?s"
    using hello_turn_step [OF tw_one_call_session] b0 by simp
  have c1: "exchange_count (tw_heap (bumped tw_one_call ?s) 0) = 1"
    using bumped_count [of tw_one_call ?s] b0 by simp
  have p1: "vd_bought_price (client_data (tw_heap (bumped tw_one_call ?s) 0)) \<noteq> 0"
    using bumped_client_data [of tw_one_call ?s] b0 by simp
  have s1: "tw_sessions (bumped tw_one_call ?s) (Some ''CA123'') = Some ?s"
    by (simp add: tw_one_call_session)
  let ?st1 = "bumped tw_one_call ?s"
  have t2: "hello_turn ?st1 = bumped ?st1 ?s"
    using hello_turn_step [OF s1] p1 c1 by simp
  let ?st2 = "bumped ?st1 ?s"
  have c2: "exchange_count (tw_heap ?st2 0) = 2"
    using bumped_count [of ?st1 ?s] c1 by simp
  have p2: "vd_bought_price (client_data (tw_heap ?st2 0)) \<noteq> 0"
    using bumped_client_data [of ?st1 ?s] p1 by simp
  have s2: "tw_sessions ?st2 (Some ''CA123'') = Some ?s"
    by (simp add: tw_one_call_session)
  have t3: "hello_turn ?st2 = bumped ?st2 ?s"
    using hello_turn_step [OF s2] p2 c2 by simp
  let ?st3 = "bumped ?st2 ?s"
  have e: "tw_three_turns = ?st3"
    by (simp add: tw_three_turns_def t1 t2 t3)
  show "tw_sessions tw_three_turns (Some ''CA123'') = Some ?s"
    by (simp add: e tw_one_call_session)
  show "exchange_count (tw_heap tw_three_turns 0) = 3"
    using bumped_count [of ?st2 ?s] c2 by (simp add: e)
  show "vd_bought_price (client_data (tw_heap tw_three_turns 0)) \<noteq> 0"
    using bumped_client_data [of ?st2 ?s] p2 by (simp add: e)
qed

theorem exchange_counter_ceiling_witness:
  "exchange_count (tw_heap tw_three_turns 0) = 3
   \<and> exchange_count (tw_heap (snd (tw_process tw_three_turns failing_model (Some ''CA123'') (Some ''Hello''))) 0) = 4
   \<and> fst (tw_process tw_three_turns failing_model (Some ''CA123'') (Some ''Hello'')) =
       [Say final_message ''alice'', Hangup]
   \<and> tw_sessions (snd (tw_process tw_three_turns failing_model (Some ''CA123'') (Some ''Hello'')))
       (Some ''CA123'') = None
   \<and> neutral_turn one_call = one_call"
proof -
  let ?s = "\<lparr>ts_bot = 0, ts_start_time = 0\<rparr>"
  have p: "vd_bought_price (client_data (tw_heap (bumped tw_three_turns ?s) (ts_bot ?s))) \<noteq> 0"
    using bumped_client_data [of tw_three_turns ?s] tw_three_turns_facts(3) by simp
  from generate_response_fst [OF p]
  obtain reply where g: "fst (generate_response (tw_heap (bumped tw_three_turns ?s) (ts_bot ?s))
      failing_model (lower (speech_of (Some ''Hello'')))) = Inr reply"
    by blast
  have a: "await_both (Completed ''Prices rose.'') TimedOut = Inr (Some ''Prices rose.'', None)"
    by (simp add: await_completed)
  from exchange_counter_ceiling [OF tw_three_turns_facts(1) hello_speech(1),
      where model = failing_model and reply = reply and mst = one_call and msid = "''CA123''"
        and msess = "\<lparr>s_bot = 0, s_start_time = 0\<rparr>" and msp = "Some ''Tell me about ROI''"
        and m = "Completed ''Prices rose.''" and r = TimedOut and a = "Some ''Prices rose.''"
        and c = None]
  show ?thesis
    using g hello_speech(2,3) tw_three_turns_facts(2) get_session_one_call a tell_me_nondecisive
    by (simp add: neutral_turn_def)
qed

lemma neutral_turn_one_call: "neutral_turn one_call = one_call"
proof -
  have "process one_call ''CA123'' (Some ''Tell me about ROI'') (Completed ''Prices rose.'') TimedOut =
      (continue_response (truncate_reply (combine (Some ''Prices rose.'') None)), one_call)"
    using process_nondecisive [OF get_session_one_call tell_me_nondecisive]
    by (simp add: await_completed)
  then show ?thesis by (simp add: neutral_turn_def)
qed

text \<open>
  C6, as stated, fails in main.py, which has no exchange counter and no ceiling: after
  five turns with a non-empty, non-decisive utterance the state is what it was after
  \<open>/voice\<close>, the bot is as the constructor made it, and the turn still continues with the
  generated reply.
\<close>

theorem main_no_exchange_ceiling_counterexample:
  "neutral_turn (neutral_turn (neutral_turn (neutral_turn (neutral_turn one_call)))) = one_call
   \<and> heap one_call 0 = OptimizedVoiceAssistant ''CA123''
   \<and> fst (process one_call ''CA123'' (Some ''Tell me about ROI'') (Completed ''Prices rose.'') TimedOut) =
       [Say ''Prices rose.'' ''alice'',
        Gather process_gather [Say ''What are your thoughts?'' ''alice'']]"
proof -
  have c: "clean_text_for_tts ''Prices rose.'' = ''Prices rose.''"
    by code_simp
  have "process one_call ''CA123'' (Some ''Tell me about ROI'') (Completed ''Prices rose.'') TimedOut =
      (continue_response (truncate_reply (combine (Some ''Prices rose.'') None)), one_call)"
    using process_nondecisive [OF get_session_one_call tell_me_nondecisive]
    by (simp add: await_completed)
  then show ?thesis
    by (simp add: neutral_turn_one_call heap_one_call combine_Some short_truncate
        continue_response_def c)
qed







end
